theory Spec2Isabelle
  imports Main "HOL-Library.Word"
begin

section \<open>Per-thread credentials of the library OS (libos\_getuid.c)\<close>

text \<open>
  The system calls of \<^verbatim>\<open>libos/src/sys/libos_getuid.c\<close> read and change the
  credentials of the current thread. Every call is modelled as a function from the
  thread's state before the call to the returned \<^verbatim>\<open>long\<close> and the state after it.
  The per-thread lock is taken at entry and released on every exit path; one call is one
  atomic step here, and the lock itself is not modelled.
\<close>

subsection \<open>Data\<close>

type_synonym uid_t = "32 word"
type_synonym gid_t = "32 word"
type_synonym size_t = "64 word"

text \<open>
  \<^verbatim>\<open>struct libos_thread\<close> is declared in \<^verbatim>\<open>libos_thread.h\<close>; the fields below are
  the ones this file uses. \<^verbatim>\<open>groups_info.groups\<close> is a pointer to a heap buffer owned by
  the thread: \<open>None\<close> is \<^verbatim>\<open>NULL\<close>, \<open>Some g\<close> a buffer holding the cells \<open>g\<close>.
\<close>

record groups_info_t =
  count :: size_t
  groups :: "gid_t list option"

record libos_thread =
  uid :: uid_t
  euid :: uid_t
  suid :: uid_t
  gid :: gid_t
  egid :: gid_t
  sgid :: gid_t
  groups_info :: groups_info_t

text \<open>
  The error numbers come from the Linux headers (\<^verbatim>\<open>errno.h\<close>), which are not part of
  the file; they have their Linux values.
\<close>

definition EPERM :: int where "EPERM = 1"
definition ENOMEM :: int where "ENOMEM = 12"
definition EFAULT :: int where "EFAULT = 14"
definition EINVAL :: int where "EINVAL = 22"

definition NGROUPS_MAX :: nat where "NGROUPS_MAX = 65536"

subsection \<open>Queries\<close>

text \<open>
  \<^verbatim>\<open>getresuid\<close> and \<^verbatim>\<open>getresgid\<close> (the static helpers) copy out the fields whose
  pointer is not \<^verbatim>\<open>NULL\<close>; the four queries pass one pointer each and return the value
  as an unsigned number.
\<close>

definition libos_syscall_getuid :: "libos_thread \<Rightarrow> int" where
  "libos_syscall_getuid current = uint (uid current)"

definition libos_syscall_getgid :: "libos_thread \<Rightarrow> int" where
  "libos_syscall_getgid current = uint (gid current)"

definition libos_syscall_geteuid :: "libos_thread \<Rightarrow> int" where
  "libos_syscall_geteuid current = uint (euid current)"

definition libos_syscall_getegid :: "libos_thread \<Rightarrow> int" where
  "libos_syscall_getegid current = uint (egid current)"

subsection \<open>setuid and setgid\<close>

text \<open>
  Both functions test \<^verbatim>\<open>current->uid == 0\<close>: the real user ID decides the
  privileged branch, also in \<^verbatim>\<open>setgid\<close>.
\<close>

definition libos_syscall_setuid :: "libos_thread \<Rightarrow> uid_t \<Rightarrow> int \<times> libos_thread" where
  "libos_syscall_setuid current uid' =
     (if uid current = 0 then
        (0, current\<lparr>uid := uid', suid := uid', euid := uid'\<rparr>)
      else if uid' \<noteq> uid current \<and> uid' \<noteq> suid current then
        (- EPERM, current)
      else
        (0, current\<lparr>euid := uid'\<rparr>))"

definition libos_syscall_setgid :: "libos_thread \<Rightarrow> gid_t \<Rightarrow> int \<times> libos_thread" where
  "libos_syscall_setgid current gid' =
     (if uid current = 0 then
        (0, current\<lparr>gid := gid', sgid := gid', egid := gid'\<rparr>)
      else if gid' \<noteq> gid current \<and> gid' \<noteq> sgid current then
        (- EPERM, current)
      else
        (0, current\<lparr>egid := gid'\<rparr>))"

subsection \<open>setreuid\<close>

text \<open>
  \<^verbatim>\<open>(int)ruid != -1\<close> reads the 32-bit argument as a signed number: \<open>sint ruid \<noteq> -1\<close>.
  The first \<^verbatim>\<open>if\<close> (effective user ID 0) is followed by a second, independent
  \<^verbatim>\<open>if\<close> / \<^verbatim>\<open>else if\<close> chain; \<open>setreuid_permission\<close> is the value of \<^verbatim>\<open>ret\<close>
  when the chain is left. \<open>setreuid_apply\<close> is the part after the
  \<^verbatim>\<open>if (ret != 0) goto out;\<close>.
\<close>

definition setreuid_permission :: "libos_thread \<Rightarrow> uid_t \<Rightarrow> uid_t \<Rightarrow> int" where
  "setreuid_permission current ruid euid' =
     (let ret = - EPERM;
          ret = (if euid current = 0 then 0 else ret)
      in
        if sint ruid \<noteq> - 1 \<and> sint euid' \<noteq> - 1 then
          (if (ruid = uid current \<or> ruid = euid current) \<and>
              (euid' = uid current \<or> euid' = euid current)
           then 0 else ret)
        else if sint ruid \<noteq> - 1 then
          (if ruid = euid current then 0 else ret)
        else if sint euid' \<noteq> - 1 then
          (if euid' = uid current \<or> euid' = suid current then 0 else ret)
        else if sint euid' = - 1 \<and> sint ruid = - 1 then 0
        else ret)"

definition setreuid_apply :: "libos_thread \<Rightarrow> uid_t \<Rightarrow> uid_t \<Rightarrow> libos_thread" where
  "setreuid_apply current ruid euid' =
     (let set_suid = False;
          (current, set_suid) =
             (if sint ruid \<noteq> - 1 then (current\<lparr>uid := ruid\<rparr>, True)
              else (current, set_suid));
          (current, set_suid) =
             (if sint euid' \<noteq> - 1 then
                (current\<lparr>euid := euid'\<rparr>, (if uid current \<noteq> euid' then True else set_suid))
              else (current, set_suid))
      in if set_suid then current\<lparr>suid := euid current\<rparr> else current)"

definition libos_syscall_setreuid :: "libos_thread \<Rightarrow> uid_t \<Rightarrow> uid_t \<Rightarrow> int \<times> libos_thread" where
  "libos_syscall_setreuid current ruid euid' =
     (let ret = setreuid_permission current ruid euid'
      in if ret \<noteq> 0 then (ret, current)
         else (0, setreuid_apply current ruid euid'))"

subsection \<open>setresuid\<close>

text \<open>
  For a caller whose effective user ID is not 0 the three checks run in order, each
  leaving through \<^verbatim>\<open>goto out\<close> with \<^verbatim>\<open>ret = -EPERM\<close>; \<open>setresuid_denied\<close>
  says whether one of them does. The writes come after all three.
\<close>

definition setresuid_denied :: "libos_thread \<Rightarrow> uid_t \<Rightarrow> uid_t \<Rightarrow> uid_t \<Rightarrow> bool" where
  "setresuid_denied current ruid euid' suid' =
     (if euid current \<noteq> 0 then
        (if sint ruid \<noteq> - 1 \<and>
            ruid \<noteq> uid current \<and> ruid \<noteq> euid current \<and> ruid \<noteq> suid current then True
         else if sint euid' \<noteq> - 1 \<and>
            euid' \<noteq> uid current \<and> euid' \<noteq> euid current \<and> euid' \<noteq> suid current then True
         else if sint suid' \<noteq> - 1 \<and>
            suid' \<noteq> uid current \<and> suid' \<noteq> euid current \<and> suid' \<noteq> suid current then True
         else False)
      else False)"

definition libos_syscall_setresuid ::
    "libos_thread \<Rightarrow> uid_t \<Rightarrow> uid_t \<Rightarrow> uid_t \<Rightarrow> int \<times> libos_thread" where
  "libos_syscall_setresuid current ruid euid' suid' =
     (if setresuid_denied current ruid euid' suid' then (- EPERM, current)
      else
        (let current = (if sint ruid \<noteq> - 1 then current\<lparr>uid := ruid\<rparr> else current);
             current = (if sint euid' \<noteq> - 1 then current\<lparr>euid := euid'\<rparr> else current);
             current = (if sint suid' \<noteq> - 1 then current\<lparr>suid := suid'\<rparr> else current)
         in (0, current)))"

subsection \<open>Supplementary groups\<close>

text \<open>
  User memory is a store of \<^verbatim>\<open>gid_t\<close> cells: a user pointer is the number of a cell,
  and \<^verbatim>\<open>grouplist[i]\<close> is the cell \<open>grouplist + i\<close>. The checks
  \<^verbatim>\<open>is_user_memory_readable\<close> and \<^verbatim>\<open>is_user_memory_writable\<close> and the allocator
  \<^verbatim>\<open>malloc\<close> are defined outside the file and are parameters here: the two checks take
  the pointer and the size in bytes, \<open>malloc_succeeds\<close> says whether an allocation of
  that many bytes returns a buffer, and \<open>malloc_contents\<close> gives the (uninitialised)
  cells of a fresh buffer. \<^verbatim>\<open>free\<close> has no effect on the values modelled.
\<close>

type_synonym c_int = "32 word"
type_synonym user_ptr = nat
type_synonym user_mem = "nat \<Rightarrow> gid_t"

record extern =
  is_user_memory_readable :: "user_ptr \<Rightarrow> size_t \<Rightarrow> bool"
  is_user_memory_writable :: "user_ptr \<Rightarrow> size_t \<Rightarrow> bool"
  malloc_succeeds :: "size_t \<Rightarrow> bool"
  malloc_contents :: "nat \<Rightarrow> gid_t"

definition malloc :: "extern \<Rightarrow> size_t \<Rightarrow> size_t \<Rightarrow> gid_t list option" where
  "malloc ext groups_len bytes =
     (if malloc_succeeds ext bytes
      then Some (map (malloc_contents ext) [0..<unat groups_len]) else None)"

text \<open>
  The loop \<^verbatim>\<open>for (size_t i = 0; i < groups_len; i++) groups[i] = grouplist[i];\<close>
  of \<^verbatim>\<open>setgroups\<close>, from the index \<open>i\<close> on.
\<close>

function setgroups_copy :: "user_mem \<Rightarrow> user_ptr \<Rightarrow> nat \<Rightarrow> nat \<Rightarrow> gid_t list \<Rightarrow> gid_t list" where
  "setgroups_copy mem grouplist groups_len i groups' =
     (if i < groups_len
      then setgroups_copy mem grouplist groups_len (i + 1) (groups'[i := mem (grouplist + i)])
      else groups')"
  by pat_completeness auto
termination
  by (relation "measure (\<lambda>(mem, grouplist, groups_len, i, groups'). groups_len - i)") auto

declare setgroups_copy.simps [simp del]

definition libos_syscall_setgroups ::
    "extern \<Rightarrow> user_mem \<Rightarrow> libos_thread \<Rightarrow> c_int \<Rightarrow> user_ptr \<Rightarrow> int \<times> libos_thread" where
  "libos_syscall_setgroups ext mem current gidsetsize grouplist =
     (if sint gidsetsize < 0 \<or> unat gidsetsize > NGROUPS_MAX then (- EINVAL, current)
      else if gidsetsize = 0 then
        (0, current\<lparr>groups_info := \<lparr>count = 0, groups = None\<rparr>\<rparr>)
      else if \<not> is_user_memory_readable ext grouplist (scast gidsetsize * 4) then
        (- EFAULT, current)
      else
        (let groups_len = (scast gidsetsize :: size_t)
         in case malloc ext groups_len (groups_len * 4) of
              None \<Rightarrow> (- ENOMEM, current)
            | Some groups' \<Rightarrow>
                (let groups' = setgroups_copy mem grouplist (unat groups_len) 0 groups'
                 in (0, current\<lparr>groups_info :=
                          \<lparr>count = groups_len, groups = Some groups'\<rparr>\<rparr>))))"

text \<open>
  The loop \<^verbatim>\<open>for (size_t i = 0; i < ret_size; i++) grouplist[i] = groups[i];\<close> of
  \<^verbatim>\<open>getgroups\<close>, from the index \<open>i\<close> on. It reads the thread's buffer without a
  bound of its own; a read through \<^verbatim>\<open>NULL\<close> or past the end of the buffer is
  undefined behaviour in C and is the result \<open>None\<close> here.
\<close>

function getgroups_copy ::
    "gid_t list option \<Rightarrow> nat \<Rightarrow> user_ptr \<Rightarrow> nat \<Rightarrow> user_mem \<Rightarrow> user_mem option" where
  "getgroups_copy groups' ret_size grouplist i mem =
     (if i < ret_size then
        (case groups' of
           None \<Rightarrow> None
         | Some g \<Rightarrow>
             if i < length g
             then getgroups_copy groups' ret_size grouplist (i + 1) (mem(grouplist + i := g ! i))
             else None)
      else Some mem)"
  by pat_completeness auto
termination
  by (relation "measure (\<lambda>(groups', ret_size, grouplist, i, mem). ret_size - i)") auto

declare getgroups_copy.simps [simp del]

text \<open>
  \<^verbatim>\<open>getgroups\<close> returns the \<^verbatim>\<open>long\<close> and the user memory after the call; the
  thread is not changed. \<^verbatim>\<open>(int)ret_size\<close> keeps the low 32 bits of the count and
  reads them as a signed number.
\<close>

definition libos_syscall_getgroups ::
    "extern \<Rightarrow> user_mem \<Rightarrow> libos_thread \<Rightarrow> c_int \<Rightarrow> user_ptr \<Rightarrow> (int \<times> user_mem) option" where
  "libos_syscall_getgroups ext mem current gidsetsize grouplist =
     (if sint gidsetsize < 0 then Some (- EINVAL, mem)
      else if \<not> is_user_memory_writable ext grouplist (scast gidsetsize * 4) then
        Some (- EFAULT, mem)
      else
        (let ret_size = count (groups_info current)
         in if gidsetsize \<noteq> 0 then
              (if ret_size > scast gidsetsize then Some (- EINVAL, mem)
               else
                 (case getgroups_copy (groups (groups_info current)) (unat ret_size)
                         grouplist 0 mem of
                    None \<Rightarrow> None
                  | Some mem' \<Rightarrow> Some (sint (ucast ret_size :: c_int), mem')))
            else Some (sint (ucast ret_size :: c_int), mem)))"

text \<open>
  The thread's group list is well formed when \<^verbatim>\<open>count\<close> is the number of cells of the
  buffer, and 0 when there is no buffer.
\<close>

definition groups_info_wf :: "groups_info_t \<Rightarrow> bool" where
  "groups_info_wf gi =
     (case groups gi of None \<Rightarrow> count gi = 0 | Some g \<Rightarrow> length g = unat (count gi))"

text \<open>The cells of the thread's buffer, none when the pointer is \<^verbatim>\<open>NULL\<close>.\<close>

definition group_list :: "groups_info_t \<Rightarrow> gid_t list" where
  "group_list gi = (case groups gi of None \<Rightarrow> [] | Some g \<Rightarrow> g)"

subsection \<open>Threads used as concrete inputs\<close>

definition root_thread :: libos_thread where
  "root_thread = \<lparr>uid = 0, euid = 0, suid = 0, gid = 0, egid = 0, sgid = 0,
     groups_info = \<lparr>count = 0, groups = None\<rparr>\<rparr>"

definition user_thread :: libos_thread where
  "user_thread = \<lparr>uid = 1000, euid = 1000, suid = 1000, gid = 1000, egid = 1000, sgid = 1000,
     groups_info = \<lparr>count = 0, groups = None\<rparr>\<rparr>"

text \<open>Real user ID 1000, effective and saved user ID 0 (a set-user-ID-root program).\<close>

definition setuid_root_thread :: libos_thread where
  "setuid_root_thread = \<lparr>uid = 1000, euid = 0, suid = 0, gid = 1000, egid = 1000, sgid = 1000,
     groups_info = \<lparr>count = 0, groups = None\<rparr>\<rparr>"

text \<open>Real user ID 1000 with all three group IDs 0.\<close>

definition gid0_thread :: libos_thread where
  "gid0_thread = \<lparr>uid = 1000, euid = 1000, suid = 1000, gid = 0, egid = 0, sgid = 0,
     groups_info = \<lparr>count = 0, groups = None\<rparr>\<rparr>"

text \<open>A set-user-ID-root thread whose saved user ID already is \<open>0xFFFFFFFF\<close>.\<close>

definition allones_thread :: libos_thread where
  "allones_thread = \<lparr>uid = 1000, euid = 0, suid = 0xFFFFFFFF, gid = 1000, egid = 1000, sgid = 1000,
     groups_info = \<lparr>count = 0, groups = None\<rparr>\<rparr>"

text \<open>A thread with the two supplementary groups 7 and 9.\<close>

definition groups_thread :: libos_thread where
  "groups_thread = \<lparr>uid = 1000, euid = 1000, suid = 1000, gid = 1000, egid = 1000, sgid = 1000,
     groups_info = \<lparr>count = 2, groups = Some [7, 9]\<rparr>\<rparr>"

text \<open>External checks that pass and an allocator that succeeds.\<close>

definition ext_ok :: extern where
  "ext_ok = \<lparr>is_user_memory_readable = (\<lambda>p n. True), is_user_memory_writable = (\<lambda>p n. True),
     malloc_succeeds = (\<lambda>n. True), malloc_contents = (\<lambda>i. 0)\<rparr>"

text \<open>User memory holding 7 and 9 in the cells 10 and 11, and 0 elsewhere.\<close>

definition list_mem :: user_mem where
  "list_mem = (\<lambda>a. 0)(10 := 7, 11 := 9)"

section \<open>Properties\<close>

lemma sint_sentinel: "sint (w :: 32 word) = - 1 \<longleftrightarrow> w = - 1"
  by (metis sint_n1 signed_word_eqI)

subsection \<open>setreuid\<close>

lemma setreuid_permission_root:
  "euid current = 0 \<Longrightarrow> setreuid_permission current ruid euid' = 0"
  by (simp add: setreuid_permission_def)

lemma setreuid_apply_fields:
  "setreuid_apply current ruid euid' =
     current\<lparr>uid := (if ruid = - 1 then uid current else ruid),
       euid := (if euid' = - 1 then euid current else euid'),
       suid := (if ruid \<noteq> - 1 \<or>
                   (euid' \<noteq> - 1 \<and> (if ruid = - 1 then uid current else ruid) \<noteq> euid')
                then (if euid' = - 1 then euid current else euid')
                else suid current)\<rparr>"
  by (simp add: setreuid_apply_def sint_sentinel)

text \<open>
  C1. A caller whose effective user ID is 0 is always permitted by \<open>setreuid\<close>: the
  call returns 0 and applies the request, whatever \<open>ruid\<close> and \<open>euid'\<close> are. Applying
  means: a non-sentinel \<open>ruid\<close> becomes the real user ID, a non-sentinel \<open>euid'\<close> the
  effective user ID, and the saved user ID becomes the new effective user ID when the
  real user ID was set or the new effective user ID differs from the real one.
\<close>

theorem setreuid_privileged_permitted:
  assumes "euid current = 0"
  shows "libos_syscall_setreuid current ruid euid' =
     (0, current\<lparr>uid := (if ruid = - 1 then uid current else ruid),
           euid := (if euid' = - 1 then euid current else euid'),
           suid := (if ruid \<noteq> - 1 \<or>
                       (euid' \<noteq> - 1 \<and> (if ruid = - 1 then uid current else ruid) \<noteq> euid')
                    then (if euid' = - 1 then euid current else euid')
                    else suid current)\<rparr>)"
  using assms
  by (simp add: libos_syscall_setreuid_def setreuid_permission_root setreuid_apply_fields)

theorem setreuid_privileged_permitted_witness:
  "euid setuid_root_thread = 0 \<and>
   libos_syscall_setreuid setuid_root_thread 7 8 =
     (0, setuid_root_thread\<lparr>uid := 7, euid := 8, suid := 8\<rparr>)"
  using setreuid_privileged_permitted [of setuid_root_thread 7 8]
  by (simp add: setuid_root_thread_def)

text \<open>
  C2 as the specification states it: from real user ID 1000, effective and saved user ID 0,
  \<open>setreuid(-1, 1000)\<close> is said to return 0 and to leave effective and saved user ID
  1000. The saved user ID stays 0: the real user ID is not set, and the new effective
  user ID equals the real one, so \<^verbatim>\<open>set_suid\<close> stays 0.
\<close>

theorem setreuid_scenario_counterexample:
  "\<not> (fst (libos_syscall_setreuid setuid_root_thread (- 1) 1000) = 0 \<and>
      euid (snd (libos_syscall_setreuid setuid_root_thread (- 1) 1000)) = 1000 \<and>
      suid (snd (libos_syscall_setreuid setuid_root_thread (- 1) 1000)) = 1000)"
  by (simp add: libos_syscall_setreuid_def setreuid_permission_def setreuid_apply_def
      setuid_root_thread_def)

text \<open>
  C2, amended. From any state with real user ID 1000 and effective and saved user ID 0,
  \<open>setreuid(-1, 1000)\<close> returns 0, the effective user ID becomes 1000, and every other
  field, the saved user ID 0 among them, keeps its value.
\<close>

theorem setreuid_scenario:
  assumes "uid current = 1000" and "euid current = 0" and "suid current = 0"
  shows "libos_syscall_setreuid current (- 1) 1000 = (0, current\<lparr>euid := 1000\<rparr>) \<and>
         suid (snd (libos_syscall_setreuid current (- 1) 1000)) = 0"
  using assms
  by (simp add: libos_syscall_setreuid_def setreuid_permission_root setreuid_apply_fields)

theorem setreuid_scenario_witness:
  "uid setuid_root_thread = 1000 \<and> euid setuid_root_thread = 0 \<and> suid setuid_root_thread = 0 \<and>
   libos_syscall_setreuid setuid_root_thread (- 1) 1000 =
     (0, setuid_root_thread\<lparr>euid := 1000\<rparr>) \<and>
   suid (snd (libos_syscall_setreuid setuid_root_thread (- 1) 1000)) = 0"
  using setreuid_scenario [of setuid_root_thread]
  by (simp add: setuid_root_thread_def)

text \<open>
  C7. \<open>setreuid(-1, -1)\<close> returns 0 and changes nothing, in every state: the last branch
  of the chain sets \<^verbatim>\<open>ret = 0\<close>, and neither write is made.
\<close>

theorem setreuid_both_sentinel_noop:
  "libos_syscall_setreuid current (- 1) (- 1) = (0, current)"
  by (simp add: libos_syscall_setreuid_def setreuid_permission_def setreuid_apply_def)

subsection \<open>setresuid\<close>

lemma setresuid_denied_iff:
  "setresuid_denied current ruid euid' suid' \<longleftrightarrow>
     euid current \<noteq> 0 \<and>
     ((ruid \<noteq> - 1 \<and> ruid \<notin> {uid current, euid current, suid current}) \<or>
      (euid' \<noteq> - 1 \<and> euid' \<notin> {uid current, euid current, suid current}) \<or>
      (suid' \<noteq> - 1 \<and> suid' \<notin> {uid current, euid current, suid current}))"
  by (auto simp add: setresuid_denied_def sint_sentinel)

text \<open>
  C4. When the effective user ID is not 0 and one of the three arguments is neither the
  sentinel nor one of the current real, effective and saved user IDs, \<open>setresuid\<close>
  returns \<open>-EPERM\<close> and the state is the one before the call, whatever the other two
  arguments are.
\<close>

theorem setresuid_all_or_nothing:
  assumes "euid current \<noteq> 0"
    and "(ruid \<noteq> - 1 \<and> ruid \<notin> {uid current, euid current, suid current}) \<or>
         (euid' \<noteq> - 1 \<and> euid' \<notin> {uid current, euid current, suid current}) \<or>
         (suid' \<noteq> - 1 \<and> suid' \<notin> {uid current, euid current, suid current})"
  shows "libos_syscall_setresuid current ruid euid' suid' = (- EPERM, current)"
proof -
  from assms have "setresuid_denied current ruid euid' suid'"
    unfolding setresuid_denied_iff by blast
  then show ?thesis
    by (simp add: libos_syscall_setresuid_def)
qed

theorem setresuid_all_or_nothing_witness:
  "euid user_thread \<noteq> 0 \<and>
   (0 :: uid_t) \<noteq> - 1 \<and> (0 :: uid_t) \<notin> {uid user_thread, euid user_thread, suid user_thread} \<and>
   libos_syscall_setresuid user_thread 1000 0 1000 = (- EPERM, user_thread) \<and>
   - EPERM \<noteq> 0"
  using setresuid_all_or_nothing [of user_thread 1000 0 1000]
  by (simp add: user_thread_def EPERM_def)

subsection \<open>setuid and setgid\<close>

text \<open>
  C5. When the real user ID is not 0 and the argument is neither the real nor the saved
  user ID, \<open>setuid\<close> returns \<open>-EPERM\<close> and the state is the one before the call.
\<close>

theorem setuid_unprivileged_denied:
  assumes "uid current \<noteq> 0" and "uid' \<noteq> uid current" and "uid' \<noteq> suid current"
  shows "libos_syscall_setuid current uid' = (- EPERM, current)"
  using assms by (simp add: libos_syscall_setuid_def)

theorem setuid_unprivileged_denied_witness:
  "uid user_thread \<noteq> 0 \<and> 0 \<noteq> uid user_thread \<and> 0 \<noteq> suid user_thread \<and>
   libos_syscall_setuid user_thread 0 = (- EPERM, user_thread) \<and> - EPERM \<noteq> 0"
  using setuid_unprivileged_denied [of user_thread 0]
  by (simp add: user_thread_def EPERM_def)

text \<open>
  C6. When the real user ID is 0, \<open>setuid\<close> returns 0, and afterwards the real, the
  effective and the saved user ID are the argument; nothing else changes.
\<close>

theorem setuid_privileged_sets_all:
  assumes "uid current = 0"
  shows "fst (libos_syscall_setuid current uid') = 0 \<and>
         uid (snd (libos_syscall_setuid current uid')) = uid' \<and>
         euid (snd (libos_syscall_setuid current uid')) = uid' \<and>
         suid (snd (libos_syscall_setuid current uid')) = uid' \<and>
         snd (libos_syscall_setuid current uid') =
           current\<lparr>uid := uid', euid := uid', suid := uid'\<rparr>"
  using assms by (simp add: libos_syscall_setuid_def)

theorem setuid_privileged_sets_all_witness:
  "uid root_thread = 0 \<and>
   fst (libos_syscall_setuid root_thread 500) = 0 \<and>
   uid (snd (libos_syscall_setuid root_thread 500)) = 500 \<and>
   euid (snd (libos_syscall_setuid root_thread 500)) = 500 \<and>
   suid (snd (libos_syscall_setuid root_thread 500)) = 500"
  using setuid_privileged_sets_all [of root_thread 500]
  by (simp add: root_thread_def)

text \<open>
  C10. In \<open>setgid\<close> the branch that also sets the real and the saved group ID is taken
  exactly when the real user ID is 0. With a real user ID other than 0 the call sets the
  effective group ID alone, and only to the current real or saved group ID; otherwise it
  returns \<open>-EPERM\<close> and changes nothing. The caller's group IDs do not enter the
  decision: real group ID 0 gives no privilege.
\<close>

theorem setgid_privilege_is_real_uid:
  "(uid current = 0 \<longrightarrow>
      libos_syscall_setgid current gid' = (0, current\<lparr>gid := gid', egid := gid', sgid := gid'\<rparr>)) \<and>
   (uid current \<noteq> 0 \<and> (gid' = gid current \<or> gid' = sgid current) \<longrightarrow>
      libos_syscall_setgid current gid' = (0, current\<lparr>egid := gid'\<rparr>)) \<and>
   (uid current \<noteq> 0 \<and> gid' \<noteq> gid current \<and> gid' \<noteq> sgid current \<longrightarrow>
      libos_syscall_setgid current gid' = (- EPERM, current))"
  by (simp add: libos_syscall_setgid_def)

theorem setgid_privilege_is_real_uid_witness:
  "uid root_thread = 0 \<and> gid root_thread = 0 \<and>
   libos_syscall_setgid root_thread 5 = (0, root_thread\<lparr>gid := 5, egid := 5, sgid := 5\<rparr>) \<and>
   uid gid0_thread \<noteq> 0 \<and> gid gid0_thread = 0 \<and> sgid gid0_thread = 0 \<and>
   libos_syscall_setgid gid0_thread 0 = (0, gid0_thread\<lparr>egid := 0\<rparr>) \<and>
   libos_syscall_setgid gid0_thread 5 = (- EPERM, gid0_thread) \<and> - EPERM \<noteq> 0"
  using setgid_privilege_is_real_uid [of root_thread 5]
    setgid_privilege_is_real_uid [of gid0_thread 0]
    setgid_privilege_is_real_uid [of gid0_thread 5]
  by (simp add: root_thread_def gid0_thread_def EPERM_def)

subsection \<open>The sentinel\<close>

lemma setresuid_fields:
  "snd (libos_syscall_setresuid current ruid euid' suid') =
     (if setresuid_denied current ruid euid' suid' then current
      else current\<lparr>uid := (if ruid = - 1 then uid current else ruid),
             euid := (if euid' = - 1 then euid current else euid'),
             suid := (if suid' = - 1 then suid current else suid')\<rparr>)"
  by (simp add: libos_syscall_setresuid_def sint_sentinel)

lemma setreuid_fields:
  "snd (libos_syscall_setreuid current ruid euid') =
     (if setreuid_permission current ruid euid' \<noteq> 0 then current
      else setreuid_apply current ruid euid')"
  by (simp add: libos_syscall_setreuid_def Let_def)

text \<open>
  After \<open>setreuid\<close> the saved user ID is the one before the call or is not the
  all-ones pattern: when it is refreshed from an effective user ID that the call did not
  set, the call was permitted, so that effective user ID is 0 or equals the non-sentinel
  \<open>ruid\<close>.
\<close>

lemma setreuid_suid_kept_or_fresh:
  "suid (snd (libos_syscall_setreuid current ruid euid')) = suid current \<or>
   suid (snd (libos_syscall_setreuid current ruid euid')) \<noteq> - 1"
proof (cases "setreuid_permission current ruid euid' \<noteq> 0")
  case True
  then show ?thesis by (simp add: setreuid_fields)
next
  case False
  then have perm: "setreuid_permission current ruid euid' = 0" by simp
  show ?thesis
  proof (cases "euid' = - 1")
    case notsent: False
    then show ?thesis
      using perm by (simp add: setreuid_fields setreuid_apply_fields)
  next
    case sent: True
    show ?thesis
    proof (cases "ruid = - 1")
      case True
      with sent perm show ?thesis
        by (simp add: setreuid_fields setreuid_apply_fields)
    next
      case False
      with sent perm have "euid current = 0 \<or> ruid = euid current"
        by (simp add: setreuid_permission_def sint_sentinel EPERM_def split: if_splits)
      with False have "euid current \<noteq> - 1" by auto
      with sent perm show ?thesis
        by (simp add: setreuid_fields setreuid_apply_fields)
    qed
  qed
qed

text \<open>
  C3 as the specification states it: no operation stores the all-ones pattern, and
  \<open>setuid(-1)\<close> and \<open>setgid(-1)\<close> in particular store it into no field.
  \<open>setuid\<close> tests no sentinel: for a thread with real user ID 0, whose three user IDs
  are 0, \<open>setuid(-1)\<close> returns 0 and the three user IDs are \<open>0xFFFFFFFF\<close> afterwards.
\<close>

theorem setuid_sentinel_counterexample:
  "uid root_thread \<noteq> 0xFFFFFFFF \<and> euid root_thread \<noteq> 0xFFFFFFFF \<and>
   suid root_thread \<noteq> 0xFFFFFFFF \<and>
   libos_syscall_setuid root_thread (- 1) =
     (0, root_thread\<lparr>uid := 0xFFFFFFFF, euid := 0xFFFFFFFF, suid := 0xFFFFFFFF\<rparr>)"
  by (simp add: libos_syscall_setuid_def root_thread_def)

text \<open>
  C3, amended. In \<open>setreuid\<close> and \<open>setresuid\<close> an argument with the all-ones pattern
  is the marker for leaving the field unchanged and is never assigned as an identity
  value: the field of a sentinel argument keeps its value, and after either call, in
  every state and for all arguments, each of the real, effective and saved user ID is
  the one before the call or differs from \<open>0xFFFFFFFF\<close>. The statement is about
  these two calls only.
\<close>

theorem sentinel_skips_field:
  "(ruid = - 1 \<longrightarrow>
      uid (snd (libos_syscall_setreuid current ruid euid')) = uid current \<and>
      uid (snd (libos_syscall_setresuid current ruid euid' suid')) = uid current) \<and>
   (euid' = - 1 \<longrightarrow>
      euid (snd (libos_syscall_setreuid current ruid euid')) = euid current \<and>
      euid (snd (libos_syscall_setresuid current ruid euid' suid')) = euid current) \<and>
   (suid' = - 1 \<longrightarrow>
      suid (snd (libos_syscall_setresuid current ruid euid' suid')) = suid current) \<and>
   (uid (snd (libos_syscall_setreuid current ruid euid')) = uid current \<or>
    uid (snd (libos_syscall_setreuid current ruid euid')) \<noteq> - 1) \<and>
   (euid (snd (libos_syscall_setreuid current ruid euid')) = euid current \<or>
    euid (snd (libos_syscall_setreuid current ruid euid')) \<noteq> - 1) \<and>
   (suid (snd (libos_syscall_setreuid current ruid euid')) = suid current \<or>
    suid (snd (libos_syscall_setreuid current ruid euid')) \<noteq> - 1) \<and>
   (uid (snd (libos_syscall_setresuid current ruid euid' suid')) = uid current \<or>
    uid (snd (libos_syscall_setresuid current ruid euid' suid')) \<noteq> - 1) \<and>
   (euid (snd (libos_syscall_setresuid current ruid euid' suid')) = euid current \<or>
    euid (snd (libos_syscall_setresuid current ruid euid' suid')) \<noteq> - 1) \<and>
   (suid (snd (libos_syscall_setresuid current ruid euid' suid')) = suid current \<or>
    suid (snd (libos_syscall_setresuid current ruid euid' suid')) \<noteq> - 1)"
  using setreuid_suid_kept_or_fresh [of current ruid euid']
  by (simp add: setreuid_fields setreuid_apply_fields setresuid_fields)

theorem sentinel_skips_field_witness:
  "snd (libos_syscall_setreuid root_thread (- 1) (- 1)) = root_thread \<and>
   snd (libos_syscall_setresuid root_thread (- 1) (- 1) (- 1)) = root_thread \<and>
   snd (libos_syscall_setreuid setuid_root_thread 7 8) =
     setuid_root_thread\<lparr>uid := 7, euid := 8, suid := 8\<rparr> \<and>
   snd (libos_syscall_setresuid setuid_root_thread 7 (- 1) 9) =
     setuid_root_thread\<lparr>uid := 7, suid := 9\<rparr> \<and>
   (7 :: uid_t) \<noteq> - 1 \<and> (8 :: uid_t) \<noteq> - 1 \<and> (9 :: uid_t) \<noteq> - 1 \<and>
   suid allones_thread = - 1 \<and>
   suid (snd (libos_syscall_setresuid allones_thread 7 8 (- 1))) = suid allones_thread \<and>
   suid (snd (libos_syscall_setreuid allones_thread (- 1) 1000)) = suid allones_thread"
  using sentinel_skips_field [of "- 1" root_thread "- 1" "- 1"]
    sentinel_skips_field [of 7 setuid_root_thread 8 9]
    sentinel_skips_field [of 7 setuid_root_thread "- 1" 9]
    sentinel_skips_field [of 7 allones_thread 8 "- 1"]
    sentinel_skips_field [of "- 1" allones_thread 1000 "- 1"]
  by (simp add: root_thread_def setuid_root_thread_def allones_thread_def
      libos_syscall_setreuid_def setreuid_permission_def
      setreuid_apply_def libos_syscall_setresuid_def setresuid_denied_def)

subsection \<open>Machine integers of setgroups and getgroups\<close>

text \<open>
  A non-negative \<^verbatim>\<open>int\<close> keeps its value when it is converted to \<^verbatim>\<open>size_t\<close>,
  and a count that is at most such a value keeps its value when it is cast to \<^verbatim>\<open>int\<close>.
\<close>

lemma sint_nonneg_uint: "0 \<le> sint (w :: 32 word) \<Longrightarrow> sint w = uint w"
proof -
  assume a: "0 \<le> sint w"
  have "sint w < 2 ^ 31" using sint_lt [of w] by simp
  then have "take_bit 32 (sint w) = sint w"
    using a by (simp add: take_bit_int_eq_self)
  then show ?thesis by (simp add: uint_sint [of w])
qed

lemma scast_nonneg_uint: "0 \<le> sint (w :: 32 word) \<Longrightarrow> uint (scast w :: 64 word) = uint w"
  by (simp add: scast_eq sint_nonneg_uint uint_up_ucast is_up)

lemma ucast_small_sint:
  assumes "uint (c :: 64 word) < 2 ^ 31"
  shows "sint (ucast c :: 32 word) = uint c"
proof -
  have "- (2 ^ 31) \<le> (0 :: int)" by simp
  also have "0 \<le> uint c" by simp
  finally have "- (2 ^ 31) \<le> uint c" .
  with assms have "signed_take_bit 31 (uint c) = uint c"
    by (intro signed_take_bit_int_eq_self) simp_all
  then show ?thesis
    by (simp add: signed_ucast_eq)
qed

lemma scast_nonneg_unat:
  assumes "0 \<le> sint (w :: 32 word)"
  shows "unat (scast w :: 64 word) = unat w"
proof -
  have "unat (scast w :: 64 word) = nat (uint (scast w :: 64 word))"
    by (rule unat_eq_nat_uint)
  also have "\<dots> = nat (uint w)"
    by (simp only: scast_nonneg_uint [OF assms])
  also have "\<dots> = unat w"
    by (rule unat_eq_nat_uint [symmetric])
  finally show ?thesis .
qed

lemma sint_lt_31: "sint (w :: 32 word) < 2 ^ 31"
  using sint_lt [of w] by simp

lemma count_le_size_uint:
  assumes "0 \<le> sint (n :: 32 word)" and "(c :: 64 word) \<le> scast n"
  shows "uint c < 2 ^ 31"
proof -
  have eq: "uint (scast n :: 64 word) = sint n"
    using scast_nonneg_uint [OF assms(1)] sint_nonneg_uint [OF assms(1)] by (rule trans_sym)
  from assms(2) have "uint c \<le> uint (scast n :: 64 word)"
    by (simp only: word_le_def)
  then have "uint c \<le> sint n"
    unfolding eq .
  also have "sint n < 2 ^ 31" by (rule sint_lt_31)
  finally show ?thesis .
qed

lemma count_le_size_sint:
  assumes "0 \<le> sint (n :: 32 word)" and "(c :: 64 word) \<le> scast n"
  shows "sint (ucast c :: 32 word) = int (unat c)"
proof -
  have "sint (ucast c :: 32 word) = uint c"
    using count_le_size_uint [OF assms] by (rule ucast_small_sint)
  then show ?thesis
    by (simp only: uint_nat)
qed

lemma sint_unat_nonneg:
  assumes "0 \<le> sint (n :: 32 word)"
  shows "sint n = int (unat n)"
  unfolding sint_nonneg_uint [OF assms] uint_nat ..

subsection \<open>The copy loops\<close>

lemma setgroups_copy_eq:
  "length g = n \<Longrightarrow> i \<le> n \<Longrightarrow>
   setgroups_copy mem p n i g = take i g @ map (\<lambda>j. mem (p + j)) [i..<n]"
proof (induction mem p n i g rule: setgroups_copy.induct)
  case (1 mem p n i g)
  show ?case
  proof (cases "i < n")
    case True
    with "1.prems" have "setgroups_copy mem p n (i + 1) (g[i := mem (p + i)]) =
        take (i + 1) (g[i := mem (p + i)]) @ map (\<lambda>j. mem (p + j)) [i + 1..<n]"
      by (intro "1.IH") simp_all
    moreover from True "1.prems" have "take (i + 1) (g[i := mem (p + i)]) = take i g @ [mem (p + i)]"
      by (simp add: take_Suc_conv_app_nth)
    moreover from True have "[i..<n] = i # [i + 1..<n]"
      by (simp add: upt_conv_Cons)
    ultimately show ?thesis
      using True by (subst setgroups_copy.simps) simp
  next
    case False
    with "1.prems" show ?thesis
      by (subst setgroups_copy.simps) simp
  qed
qed

lemma getgroups_copy_eq:
  "n \<le> length g \<Longrightarrow> i \<le> n \<Longrightarrow>
   getgroups_copy (Some g) n p i mem =
     Some (\<lambda>a. if p + i \<le> a \<and> a < p + n then g ! (a - p) else mem a)"
proof (induction "Some g" n p i mem rule: getgroups_copy.induct)
  case (1 n p i mem)
  show ?case
  proof (cases "i < n")
    case True
    with "1.prems" have il: "i < length g" by simp
    from True "1.prems" il have "getgroups_copy (Some g) n p (i + 1) (mem(p + i := g ! i)) =
        Some (\<lambda>a. if p + (i + 1) \<le> a \<and> a < p + n then g ! (a - p) else (mem(p + i := g ! i)) a)"
      by (intro "1.hyps") simp_all
    moreover have "(\<lambda>a. if p + (i + 1) \<le> a \<and> a < p + n then g ! (a - p) else (mem(p + i := g ! i)) a)
       = (\<lambda>a. if p + i \<le> a \<and> a < p + n then g ! (a - p) else mem a)"
      using True by (auto simp add: fun_eq_iff)
    ultimately show ?thesis
      using True il by (subst getgroups_copy.simps) simp
  next
    case False
    with "1.prems" show ?thesis
      by (subst getgroups_copy.simps) (auto simp add: fun_eq_iff)
  qed
qed


lemma getgroups_copy_nothing: "getgroups_copy g 0 p 0 mem = Some mem"
  by (subst getgroups_copy.simps) simp

lemma sint_pos_nonzero: "0 < sint (n :: 32 word) \<Longrightarrow> n \<noteq> 0"
  by auto

lemma setgroups_zero:
  "libos_syscall_setgroups ext mem current 0 grouplist =
     (0, current\<lparr>groups_info := \<lparr>count = 0, groups = None\<rparr>\<rparr>)"
  by (simp add: libos_syscall_setgroups_def NGROUPS_MAX_def)

lemma setgroups_success:
  assumes pos: "0 < sint N" and le: "sint N \<le> 65536"
    and rd: "is_user_memory_readable ext grouplist (scast N * 4)"
    and ma: "malloc_succeeds ext (scast N * 4)"
  shows "libos_syscall_setgroups ext mem current N grouplist =
     (0, current\<lparr>groups_info :=
           \<lparr>count = scast N, groups = Some (map (\<lambda>j. mem (grouplist + j)) [0..<unat N])\<rparr>\<rparr>)"
proof -
  from pos have nn: "0 \<le> sint N" by simp
  have un: "unat (scast N :: 64 word) = unat N"
    by (rule scast_nonneg_unat [OF nn])
  from le have "int (unat N) \<le> 65536"
    by (simp only: sint_unat_nonneg [OF nn])
  then have "unat N \<le> 65536" by linarith
  then have bound: "\<not> unat N > NGROUPS_MAX"
    by (simp add: NGROUPS_MAX_def)
  from pos have nz: "N \<noteq> 0" by (rule sint_pos_nonzero)
  have len: "length (map (malloc_contents ext) [0..<unat N]) = unat N" by simp
  have copy: "setgroups_copy mem grouplist (unat N) 0 (map (malloc_contents ext) [0..<unat N]) =
      map (\<lambda>j. mem (grouplist + j)) [0..<unat N]"
    using setgroups_copy_eq [OF len, of 0 mem grouplist] by simp
  show ?thesis
    using pos bound nz rd ma
    by (simp add: libos_syscall_setgroups_def malloc_def un copy Let_def)
qed

subsection \<open>setgroups and getgroups\<close>

lemma getgroups_copy_wf:
  assumes "groups_info_wf gi"
  shows "getgroups_copy (groups gi) (unat (count gi)) p 0 mem =
     Some (\<lambda>a. if p \<le> a \<and> a < p + unat (count gi) then group_list gi ! (a - p) else mem a)"
proof (cases "groups gi")
  case None
  with assms have "count gi = 0" by (simp add: groups_info_wf_def)
  with None show ?thesis by (auto simp add: getgroups_copy_nothing fun_eq_iff)
next
  case (Some g)
  with assms have len: "unat (count gi) \<le> length g" by (simp add: groups_info_wf_def)
  from Some have gl: "group_list gi = g" by (simp add: group_list_def)
  from Some show ?thesis
    using getgroups_copy_eq [OF len, of 0 p mem] unfolding gl by simp
qed

lemma getgroups_too_small:
  assumes pos: "0 < sint size'"
    and wr: "is_user_memory_writable ext grouplist (scast size' * 4)"
    and big: "unat size' < unat (count (groups_info current))"
  shows "libos_syscall_getgroups ext mem current size' grouplist = Some (- EINVAL, mem)"
proof -
  from pos have nn: "0 \<le> sint size'" by simp
  from big have "scast size' < count (groups_info current)"
    by (simp only: word_less_nat_alt scast_nonneg_unat [OF nn])
  with pos wr sint_pos_nonzero [OF pos] show ?thesis
    by (simp add: libos_syscall_getgroups_def)
qed

lemma getgroups_fits:
  assumes pos: "0 < sint size'"
    and wr: "is_user_memory_writable ext grouplist (scast size' * 4)"
    and fit: "unat (count (groups_info current)) \<le> unat size'"
    and wf: "groups_info_wf (groups_info current)"
  shows "libos_syscall_getgroups ext mem current size' grouplist =
     Some (int (unat (count (groups_info current))),
           \<lambda>a. if grouplist \<le> a \<and> a < grouplist + unat (count (groups_info current))
               then group_list (groups_info current) ! (a - grouplist) else mem a)"
proof -
  from pos have nn: "0 \<le> sint size'" by simp
  from fit have le: "count (groups_info current) \<le> scast size'"
    by (simp only: word_le_nat_alt scast_nonneg_unat [OF nn])
  then have nl: "\<not> scast size' < count (groups_info current)"
    by simp
  have ret: "sint (ucast (count (groups_info current)) :: 32 word) =
      int (unat (count (groups_info current)))"
    by (rule count_le_size_sint [OF nn le])
  from pos wr sint_pos_nonzero [OF pos] nl show ?thesis
    by (simp add: libos_syscall_getgroups_def getgroups_copy_wf [OF wf] ret Let_def)
qed

text \<open>\<open>setgroups\<close> keeps the group list well formed, on every path.\<close>

lemma setgroups_keeps_wf:
  assumes "groups_info_wf (groups_info current)"
  shows "groups_info_wf (groups_info (snd (libos_syscall_setgroups ext mem current N grouplist)))"
proof -
  have "length (setgroups_copy mem grouplist (unat (scast N :: size_t)) 0
          (map (malloc_contents ext) [0..<unat (scast N :: size_t)])) = unat (scast N :: size_t)"
    by (subst setgroups_copy_eq) simp_all
  with assms show ?thesis
    by (auto simp add: libos_syscall_setgroups_def groups_info_wf_def malloc_def Let_def
        split: option.splits)
qed

text \<open>
  C9. For \<open>getgroups(size, buffer)\<close> with \<open>0 < size\<close> and a writable buffer: when the
  count of supplementary groups exceeds \<open>size\<close>, the call returns \<open>-EINVAL\<close> and user
  memory is as before. Otherwise, the thread's group list being well formed (its count
  is the number of cells of its buffer), the call returns the count, the cells
  \<open>buffer, \<dots>, buffer + count - 1\<close> hold the thread's group IDs in order, and every
  other cell is as before.
\<close>

theorem getgroups_result:
  assumes "0 < sint size'"
    and "is_user_memory_writable ext grouplist (scast size' * 4)"
  shows "(unat size' < unat (count (groups_info current)) \<longrightarrow>
            libos_syscall_getgroups ext mem current size' grouplist = Some (- EINVAL, mem)) \<and>
         (unat (count (groups_info current)) \<le> unat size' \<and> groups_info_wf (groups_info current) \<longrightarrow>
            libos_syscall_getgroups ext mem current size' grouplist =
              Some (int (unat (count (groups_info current))),
                    \<lambda>a. if grouplist \<le> a \<and> a < grouplist + unat (count (groups_info current))
                        then group_list (groups_info current) ! (a - grouplist) else mem a))"
  using assms by (simp add: getgroups_too_small getgroups_fits)

theorem getgroups_result_witness:
  "0 < sint (1 :: c_int) \<and> 0 < sint (4 :: c_int) \<and> is_user_memory_writable ext_ok 20 (scast (4 :: c_int) * 4) \<and>
   groups_info_wf (groups_info groups_thread) \<and>
   libos_syscall_getgroups ext_ok list_mem groups_thread 1 20 = Some (- EINVAL, list_mem) \<and>
   fst (the (libos_syscall_getgroups ext_ok list_mem groups_thread 4 20)) = 2 \<and>
   map (snd (the (libos_syscall_getgroups ext_ok list_mem groups_thread 4 20))) [19, 20, 21, 22] =
     [0, 7, 9, 0]"
  using getgroups_result [of 1 ext_ok 20 groups_thread list_mem]
    getgroups_result [of 4 ext_ok 20 groups_thread list_mem]
  by (simp add: ext_ok_def groups_thread_def groups_info_wf_def group_list_def list_mem_def)

text \<open>
  C8. For \<open>0 \<le> N \<le> 65536\<close>, with the checks passing and the allocation succeeding,
  \<open>setgroups(N, list)\<close> returns 0, and \<open>getgroups(N, buffer)\<close> on the resulting thread
  returns \<open>N\<close> and leaves in the cells \<open>buffer, \<dots>, buffer + N - 1\<close> the \<open>N\<close>
  identifiers that \<open>list\<close> held at the time of \<open>setgroups\<close>, in the same order; the
  other cells of user memory are not written.
\<close>

theorem setgroups_getgroups_roundtrip:
  assumes nn: "0 \<le> sint N" and le: "sint N \<le> 65536"
    and rd: "is_user_memory_readable ext list' (scast N * 4)"
    and ma: "malloc_succeeds ext (scast N * 4)"
    and wr: "is_user_memory_writable ext buffer (scast N * 4)"
  shows "fst (libos_syscall_setgroups ext mem current N list') = 0 \<and>
         libos_syscall_getgroups ext mem' (snd (libos_syscall_setgroups ext mem current N list')) N buffer =
           Some (sint N,
                 \<lambda>a. if buffer \<le> a \<and> a < buffer + unat N then mem (list' + (a - buffer)) else mem' a)"
proof (cases "N = 0")
  case True
  with wr show ?thesis
    by (auto simp add: setgroups_zero libos_syscall_getgroups_def fun_eq_iff)
next
  case False
  with nn have pos: "0 < sint N"
    by (metis order_le_less signed_0 signed_word_eqI)
  let ?t = "current\<lparr>groups_info :=
           \<lparr>count = scast N, groups = Some (map (\<lambda>j. mem (list' + j)) [0..<unat N])\<rparr>\<rparr>"
  have set: "libos_syscall_setgroups ext mem current N list' = (0, ?t)"
    by (rule setgroups_success [OF pos le rd ma])
  have un: "unat (scast N :: 64 word) = unat N"
    by (rule scast_nonneg_unat [OF nn])
  have wf: "groups_info_wf (groups_info ?t)"
    by (simp add: groups_info_wf_def un)
  have fit: "unat (count (groups_info ?t)) \<le> unat N"
    by (simp add: un)
  have "libos_syscall_getgroups ext mem' ?t N buffer =
     Some (int (unat (count (groups_info ?t))),
           \<lambda>a. if buffer \<le> a \<and> a < buffer + unat (count (groups_info ?t))
               then group_list (groups_info ?t) ! (a - buffer) else mem' a)"
    by (rule getgroups_fits [OF pos wr fit wf])
  moreover have "(\<lambda>a. if buffer \<le> a \<and> a < buffer + unat (count (groups_info ?t))
               then group_list (groups_info ?t) ! (a - buffer) else mem' a) =
     (\<lambda>a. if buffer \<le> a \<and> a < buffer + unat N then mem (list' + (a - buffer)) else mem' a)"
    by (auto simp add: fun_eq_iff un group_list_def)
  moreover have "int (unat (count (groups_info ?t))) = sint N"
    by (simp only: sint_unat_nonneg [OF nn]) (simp add: un)
  ultimately show ?thesis
    by (simp only: set fst_conv snd_conv)
qed

theorem setgroups_getgroups_roundtrip_witness:
  "0 \<le> sint (2 :: c_int) \<and> sint (2 :: c_int) \<le> 65536 \<and>
   is_user_memory_readable ext_ok 10 (scast (2 :: c_int) * 4) \<and>
   malloc_succeeds ext_ok (scast (2 :: c_int) * 4) \<and>
   is_user_memory_writable ext_ok 20 (scast (2 :: c_int) * 4) \<and>
   fst (libos_syscall_setgroups ext_ok list_mem user_thread 2 10) = 0 \<and>
   fst (the (libos_syscall_getgroups ext_ok list_mem
          (snd (libos_syscall_setgroups ext_ok list_mem user_thread 2 10)) 2 20)) = 2 \<and>
   map (snd (the (libos_syscall_getgroups ext_ok list_mem
          (snd (libos_syscall_setgroups ext_ok list_mem user_thread 2 10)) 2 20))) [20, 21] = [7, 9]"
  using setgroups_getgroups_roundtrip [of 2 ext_ok 10 20 list_mem user_thread list_mem]
  by (simp add: ext_ok_def list_mem_def)

end
